theory Spec2Isabelle
  imports Complex_Main
begin

section \<open>Python values and exceptions\<close>

text \<open>
  Numbers of the dashboard (Python ints and floats, magnitudes of OBD quantities) are
  reals. A Python object that may be \<open>None\<close> is an \<open>option\<close>. A raised exception is the
  left summand of a result.

  \<open>QueryError\<close> stands for any exception derived from \<open>Exception\<close> that the adapter's
  library raises. \<open>KeyboardInterrupt\<close> and \<open>SystemExit\<close> derive from \<open>BaseException\<close> only.
\<close>

datatype py_error =
  TypeError | ZeroDivisionError | KeyError | QueryError | KeyboardInterrupt | SystemExit

text \<open>Whether an exception is an instance of \<open>Exception\<close>.\<close>

fun is_Exception :: "py_error \<Rightarrow> bool" where
  "is_Exception KeyboardInterrupt = False"
| "is_Exception SystemExit = False"
| "is_Exception TypeError = True"
| "is_Exception ZeroDivisionError = True"
| "is_Exception KeyError = True"
| "is_Exception QueryError = True"

text \<open>
  \<open>try: body / except: handler\<close> for a body that has already been evaluated. The bare
  \<open>except:\<close> catches every exception.
\<close>

definition try_except :: "py_error + 'a \<Rightarrow> (py_error \<Rightarrow> py_error + 'a) \<Rightarrow> py_error + 'a" where
  "try_except body handler = (case body of Inl e \<Rightarrow> handler e | Inr v \<Rightarrow> Inr v)"

text \<open>
  \<open>try: body / except Exception as e: handler\<close>: an exception that is not an instance of
  \<open>Exception\<close> is not caught and goes on to the caller.
\<close>

definition try_except_Exception ::
  "py_error + 'a \<Rightarrow> (py_error \<Rightarrow> py_error + 'a) \<Rightarrow> py_error + 'a" where
  "try_except_Exception body handler =
     (case body of
        Inl e \<Rightarrow> if is_Exception e then handler e else Inl e
      | Inr v \<Rightarrow> Inr v)"

text \<open>Sequencing of statements that may raise.\<close>

definition bind_err :: "py_error + 'a \<Rightarrow> ('a \<Rightarrow> py_error + 'b) \<Rightarrow> py_error + 'b" where
  "bind_err m f = (case m of Inl e \<Rightarrow> Inl e | Inr v \<Rightarrow> f v)"

text \<open>Python's \<open>int(x)\<close> on a number: truncation towards zero.\<close>

definition py_int :: "real \<Rightarrow> int" where
  "py_int x = (if x < 0 then \<lceil>x\<rceil> else \<lfloor>x\<rfloor>)"

text \<open>Python's \<open>a / b\<close>: raises on a zero divisor.\<close>

definition truediv :: "real \<Rightarrow> real \<Rightarrow> py_error + real" where
  "truediv a b = (if b = 0 then Inl ZeroDivisionError else Inr (a / b))"


section \<open>Floating point\<close>

text \<open>
  A Python float is an IEEE 754 binary64 number: a significand of 53 bits and a binary
  exponent. An operation on floats gives the exact result rounded to the nearest such
  number, and a tie goes to the even significand.

  \<open>rne y\<close> is the integer nearest to \<open>y\<close>, the even one when \<open>y\<close> lies half way between
  two. \<open>fl x\<close> is the binary64 number nearest to \<open>x\<close>: with \<open>e\<close> the exponent of \<open>x\<close>, that
  is \<open>2^e \<le> |x| < 2^(e+1)\<close>, it is the multiple of \<open>2^(e-52)\<close> nearest to \<open>x\<close>. Overflow to
  infinity, subnormal numbers, NaN and the sign of zero are left out.

  A decimal literal such as \<open>50.3\<close> in a Python program denotes \<open>fl 50.3\<close>. An operation on
  Python ints is exact, and so is its rounding as long as the result is below \<open>2^53\<close>.

  The rounding is written out where what is drawn or done depends on it: in the
  difference that is compared with the redraw threshold and in the value behind the label
  of a tick mark. The ratio and the angles of a gauge are modelled by the exact quotient
  and products.
\<close>

definition rne :: "real \<Rightarrow> int" where
  "rne y = (if y - of_int \<lfloor>y\<rfloor> < 1/2 then \<lfloor>y\<rfloor>
            else if y - of_int \<lfloor>y\<rfloor> > 1/2 then \<lfloor>y\<rfloor> + 1
            else if even \<lfloor>y\<rfloor> then \<lfloor>y\<rfloor> else \<lfloor>y\<rfloor> + 1)"

definition fl :: "real \<Rightarrow> real" where
  "fl x = (if x = 0 then 0
           else let e = \<lfloor>log 2 \<bar>x\<bar>\<rfloor> in
                of_int (rne (x / 2 powr of_int (e - 52))) * 2 powr of_int (e - 52))"

text \<open>The four operations on floats.\<close>

definition fadd :: "real \<Rightarrow> real \<Rightarrow> real" where
  "fadd a b = fl (a + b)"

definition fsub :: "real \<Rightarrow> real \<Rightarrow> real" where
  "fsub a b = fl (a - b)"

definition fmul :: "real \<Rightarrow> real \<Rightarrow> real" where
  "fmul a b = fl (a * b)"

text \<open>Division by a divisor that is not zero.\<close>

definition fdiv :: "real \<Rightarrow> real \<Rightarrow> real" where
  "fdiv a b = fl (a / b)"


section \<open>The gauge of dashboard.py\<close>

text \<open>
  What \<open>GaugeWidget.draw\<close> puts on the canvas, as far as it depends on the gauge's
  numbers: the extent of the active arc (which starts at 225 degrees), the tick marks
  (angle in degrees and printed label), the needle's angle in degrees and the number
  printed in the middle. Pixel positions, colours and fonts are left out.
\<close>

record canvas_items =
  arc_extent :: real
  marks :: "(real \<times> int) list"
  needle_angle :: real
  value_text :: int

record GaugeWidget =
  min_val :: real
  max_val :: real
  cur_value :: real
  last_drawn_value :: "real option"
  canvas :: "canvas_items option"
  draw_calls :: nat

text \<open>
  \<open>GaugeWidget._draw_marks\<close>: nine marks, \<open>i\<close> in \<open>range(9)\<close>, each with its angle in degrees
  and its label \<open>int(val)\<close>, where
  \<open>val = self.min_val + (self.max_val - self.min_val) * i / 8\<close> is computed in floating
  point, from left to right. The angle \<open>225 - (270 * i / 8)\<close> is a multiple of \<open>1/8\<close> below
  1000 and so has no rounding.
\<close>

definition draw_marks :: "GaugeWidget \<Rightarrow> (real \<times> int) list" where
  "draw_marks g =
     map (\<lambda>i. (225 - (270 * real i / 8),
               py_int (fadd (min_val g)
                            (fdiv (fmul (fsub (max_val g) (min_val g)) (real i)) 8))))
         [0..<9]"

text \<open>\<open>GaugeWidget._draw_needle\<close>: the angle of the needle, in degrees.\<close>

definition draw_needle :: "real \<Rightarrow> real" where
  "draw_needle ratio = 225 - (270 * ratio)"

text \<open>
  \<open>GaugeWidget.draw\<close>: clears the canvas and paints it again from \<open>self.value\<close>. The
  division raises when \<open>max_val = min_val\<close>. \<open>draw_calls\<close> counts the repaints.
\<close>

definition draw :: "GaugeWidget \<Rightarrow> py_error + GaugeWidget" where
  "draw g =
     bind_err (truediv (cur_value g - min_val g) (max_val g - min_val g))
       (\<lambda>ratio. Inr (g\<lparr>canvas := Some \<lparr>arc_extent = - 270 * ratio,
                                         marks = draw_marks g,
                                         needle_angle = draw_needle ratio,
                                         value_text = py_int (cur_value g)\<rparr>,
                        draw_calls := Suc (draw_calls g)\<rparr>))"

text \<open>\<open>GaugeWidget.__init__\<close>: value 0, nothing drawn yet, then the first \<open>draw\<close>.\<close>

definition GaugeWidget_init :: "real \<Rightarrow> real \<Rightarrow> py_error + GaugeWidget" where
  "GaugeWidget_init mn mx =
     draw \<lparr>min_val = mn, max_val = mx, cur_value = 0, last_drawn_value = None,
           canvas = None, draw_calls = 0\<rparr>"

text \<open>
  \<open>GaugeWidget.set_value\<close>. The argument is a Python object: \<open>min(self.max_val, None)\<close>
  raises \<open>TypeError\<close>. \<open>max\<close> and \<open>min\<close> return one of their arguments; the difference
  \<open>new_val - self._last_drawn_value\<close> is a floating-point subtraction.
\<close>

definition set_value :: "GaugeWidget \<Rightarrow> real option \<Rightarrow> py_error + GaugeWidget" where
  "set_value g val =
     (case val of
        None \<Rightarrow> Inl TypeError
      | Some v \<Rightarrow>
          let new_val = max (min_val g) (min (max_val g) v) in
          if (case last_drawn_value g of None \<Rightarrow> True | Some l \<Rightarrow> \<bar>fsub new_val l\<bar> > 0.5)
          then draw (g\<lparr>cur_value := new_val, last_drawn_value := Some new_val\<rparr>)
          else Inr g)"

text \<open>A sequence of \<open>set_value\<close> calls on one gauge; the first exception ends it.\<close>

fun set_values :: "GaugeWidget \<Rightarrow> real option list \<Rightarrow> py_error + GaugeWidget" where
  "set_values g [] = Inr g"
| "set_values g (v # vs) = bind_err (set_value g v) (\<lambda>g'. set_values g' vs)"


section \<open>The gauge of obd_dashboard_gui.py\<close>

text \<open>
  The PyQt widget keeps no record of what it drew last. \<open>update_calls\<close> counts the
  repaint requests (\<open>self.update()\<close>). \<open>start_angle\<close> and \<open>span_angle\<close> are set once in
  \<open>__init__\<close> and never assigned again.
\<close>

record QtGaugeWidget =
  min_value :: real
  max_value :: real
  current_value :: real
  update_calls :: nat

definition start_angle :: int where
  "start_angle = 225"

definition span_angle :: int where
  "span_angle = 270"

definition QtGaugeWidget_init :: "real \<Rightarrow> real \<Rightarrow> QtGaugeWidget" where
  "QtGaugeWidget_init mn mx =
     \<lparr>min_value = mn, max_value = mx, current_value = 0, update_calls = 0\<rparr>"

text \<open>\<open>GaugeWidget.set_value\<close> of obd_dashboard_gui.py.\<close>

definition qt_set_value :: "QtGaugeWidget \<Rightarrow> real option \<Rightarrow> py_error + QtGaugeWidget" where
  "qt_set_value g val =
     (case val of
        None \<Rightarrow> Inl TypeError
      | Some v \<Rightarrow>
          Inr (g\<lparr>current_value := max (min_value g) (min (max_value g) v),
                 update_calls := Suc (update_calls g)\<rparr>))"

text \<open>
  What \<open>paintEvent\<close> draws: the two \<open>drawArc\<close> calls with their start and span arguments
  (in sixteenths of a degree, as passed to the painter), the scale marks, the needle's
  angle and the printed number.
\<close>

record qt_painting =
  background_arc :: "int \<times> int"
  active_arc :: "int \<times> int"
  scale_marks :: "(real \<times> int) list"
  qt_needle_angle :: real
  qt_value_text :: int

text \<open>
  \<open>GaugeWidget._draw_scale_marks\<close>: as in dashboard.py, the value behind the label is
  computed in floating point.
\<close>

definition draw_scale_marks :: "QtGaugeWidget \<Rightarrow> (real \<times> int) list" where
  "draw_scale_marks g =
     map (\<lambda>i. (real_of_int start_angle - (real_of_int span_angle * real i / 8),
               py_int (fadd (min_value g)
                            (fdiv (fmul (fsub (max_value g) (min_value g)) (real i)) 8))))
         [0..<9]"

text \<open>\<open>GaugeWidget.paintEvent\<close>.\<close>

definition paintEvent :: "QtGaugeWidget \<Rightarrow> py_error + qt_painting" where
  "paintEvent g =
     bind_err (truediv (current_value g - min_value g) (max_value g - min_value g))
       (\<lambda>value_ratio.
          let active_span = real_of_int span_angle * value_ratio in
          Inr \<lparr>background_arc = (start_angle * 16, span_angle * 16),
               active_arc = (start_angle * 16, py_int (active_span * 16)),
               scale_marks = draw_scale_marks g,
               qt_needle_angle = real_of_int start_angle - (real_of_int span_angle * value_ratio),
               qt_value_text = py_int (current_value g)\<rparr>)"


section \<open>Reading from the OBD adapter\<close>

text \<open>
  The adapter is outside the program. A command is known by its python-obd name, a
  response by what \<open>is_null()\<close> and \<open>value\<close> give (the value is the magnitude of the
  quantity, or \<open>None\<close>), and the connection by its \<open>query\<close>, which returns a response or
  raises. The module-level \<open>obd_connection\<close> is \<open>None\<close> until a connection is made. The
  argument of a query is a Python object and may be \<open>None\<close>.
\<close>

type_synonym obd_command = string

record response =
  is_null :: bool
  resp_value :: "real option"

type_synonym connection = "obd_command option \<Rightarrow> py_error + response"

text \<open>
  \<open>read_obd_data\<close> of dashboard.py. Its handler is the bare \<open>except:\<close>. The test
  \<open>not obd_connection\<close> is that for \<open>None\<close>: a connection object is true.
\<close>

definition read_obd_data :: "connection option \<Rightarrow> obd_command option \<Rightarrow> py_error + real option" where
  "read_obd_data obd_connection command =
     (case obd_connection of
        None \<Rightarrow> Inr None
      | Some query \<Rightarrow>
          try_except
            (bind_err (query command)
               (\<lambda>response. Inr (if \<not> is_null response then resp_value response else None)))
            (\<lambda>e. Inr None))"

text \<open>
  \<open>read_obd_data\<close> of obd_dashboard_gui.py. Its handler is \<open>except Exception as e:\<close>; it
  prints a message and returns \<open>None\<close>.
\<close>

definition qt_read_obd_data ::
  "connection option \<Rightarrow> obd_command option \<Rightarrow> py_error + real option" where
  "qt_read_obd_data obd_connection command =
     (case obd_connection of
        None \<Rightarrow> Inr None
      | Some query \<Rightarrow>
          try_except_Exception
            (bind_err (query command)
               (\<lambda>response. Inr (if \<not> is_null response then resp_value response else None)))
            (\<lambda>e. Inr None))"


section \<open>The dashboard of dashboard.py\<close>

record OBDDashboard =
  use_sim :: bool
  commands :: "string \<rightharpoonup> obd_command"
  runtime :: real
  dist_dtc :: real
  time_dtc :: real
  speed :: GaugeWidget
  rpm :: GaugeWidget
  throttle :: GaugeWidget
  load_bar :: real
  coolant :: GaugeWidget
  intake_t :: GaugeWidget
  oil :: GaugeWidget
  fuel_p :: GaugeWidget
  fuel_r :: GaugeWidget
  intake_p :: GaugeWidget
  maf_bar :: real

text \<open>
  \<open>OBDDashboard.__init__\<close> once the mode and the command catalogue are settled: the three
  counters start at 0 and the pages create the nine gauges and the two bars.
\<close>

definition OBDDashboard_init :: "bool \<Rightarrow> (string \<rightharpoonup> obd_command) \<Rightarrow> py_error + OBDDashboard" where
  "OBDDashboard_init sim cmds =
     bind_err (GaugeWidget_init 0 200) (\<lambda>g_speed.
     bind_err (GaugeWidget_init 0 8000) (\<lambda>g_rpm.
     bind_err (GaugeWidget_init 0 100) (\<lambda>g_throttle.
     bind_err (GaugeWidget_init (- 40) 120) (\<lambda>g_coolant.
     bind_err (GaugeWidget_init (- 40) 80) (\<lambda>g_intake_t.
     bind_err (GaugeWidget_init 0 150) (\<lambda>g_oil.
     bind_err (GaugeWidget_init 0 600) (\<lambda>g_fuel_p.
     bind_err (GaugeWidget_init 0 50) (\<lambda>g_fuel_r.
     bind_err (GaugeWidget_init 0 300) (\<lambda>g_intake_p.
       Inr \<lparr>use_sim = sim, commands = cmds, runtime = 0, dist_dtc = 0, time_dtc = 0,
            speed = g_speed, rpm = g_rpm, throttle = g_throttle, load_bar = 0,
            coolant = g_coolant, intake_t = g_intake_t, oil = g_oil,
            fuel_p = g_fuel_p, fuel_r = g_fuel_r, intake_p = g_intake_p,
            maf_bar = 0\<rparr>)))))))))"

text \<open>
  \<open>OBDDashboard._read\<close>: \<open>None\<close> in simulation and for a name the catalogue lacks;
  otherwise the value read, or the default when the read gave \<open>None\<close> or raised.
\<close>

definition read :: "OBDDashboard \<Rightarrow> connection option \<Rightarrow> string \<Rightarrow> real \<Rightarrow> py_error + real option" where
  "read st conn cmd dflt =
     (if use_sim st \<or> cmd \<notin> dom (commands st) then Inr None
      else
        (case try_except (read_obd_data conn (commands st cmd)) (\<lambda>e. Inr None) of
           Inr (Some result) \<Rightarrow> Inr (Some result)
         | Inr None \<Rightarrow> Inr (Some dflt)
         | Inl e \<Rightarrow> Inl e))"

text \<open>The random numbers one tick draws, named after the variables they are assigned to.\<close>

record randoms =
  rnd_spd :: real
  rnd_r :: real
  rnd_thr :: real
  rnd_ld :: real
  rnd_tim :: real
  rnd_cool :: real
  rnd_int_t :: real
  rnd_oil :: real
  rnd_fp :: real
  rnd_fr :: real
  rnd_ip :: real
  rnd_maf :: real
  rnd_dist :: real

text \<open>The local variables that the first block of \<open>_update\<close> assigns.\<close>

record readings =
  v_spd :: "real option"
  v_r :: "real option"
  v_thr :: "real option"
  v_ld :: "real option"
  v_tim :: "real option"
  v_cool :: "real option"
  v_int_t :: "real option"
  v_oil :: "real option"
  v_fp :: "real option"
  v_fr :: "real option"
  v_ip :: "real option"
  v_maf :: "real option"
  v_mmaf :: "real option"

text \<open>\<open>_update\<close>, the first block: the simulated draws, or one \<open>_read\<close> per metric.\<close>

definition sample :: "OBDDashboard \<Rightarrow> connection option \<Rightarrow> randoms \<Rightarrow> py_error + readings" where
  "sample st conn rnd =
     (if use_sim st then
        Inr \<lparr>v_spd = Some (rnd_spd rnd), v_r = Some (rnd_r rnd), v_thr = Some (rnd_thr rnd),
             v_ld = Some (rnd_ld rnd), v_tim = Some (rnd_tim rnd),
             v_cool = Some (rnd_cool rnd), v_int_t = Some (rnd_int_t rnd),
             v_oil = Some (rnd_oil rnd), v_fp = Some (rnd_fp rnd), v_fr = Some (rnd_fr rnd),
             v_ip = Some (rnd_ip rnd), v_maf = Some (rnd_maf rnd), v_mmaf = Some 255\<rparr>
      else
        bind_err (read st conn ''speed'' 0) (\<lambda>spd.
        bind_err (read st conn ''rpm'' 0) (\<lambda>r.
        bind_err (read st conn ''throttle_pos'' 0) (\<lambda>thr.
        bind_err (read st conn ''eng_load'' 0) (\<lambda>ld.
        bind_err (read st conn ''timing_advance'' 0) (\<lambda>tim.
        bind_err (read st conn ''coolant_temp'' 80) (\<lambda>cool.
        bind_err (read st conn ''intake_temp'' 25) (\<lambda>int_t.
        bind_err (read st conn ''oil_temp'' 90) (\<lambda>oil_v.
        bind_err (read st conn ''fuel_pressure'' 300) (\<lambda>fp.
        bind_err (read st conn ''fuel_rate'' 5) (\<lambda>fr.
        bind_err (read st conn ''maf'' 10) (\<lambda>maf.
        bind_err (read st conn ''max_maf'' 255) (\<lambda>mmaf.
          Inr \<lparr>v_spd = spd, v_r = r, v_thr = thr, v_ld = ld, v_tim = tim, v_cool = cool,
               v_int_t = int_t, v_oil = oil_v, v_fp = fp, v_fr = fr,
               v_ip = Some (rnd_ip rnd), v_maf = maf, v_mmaf = mmaf\<rparr>)))))))))))))"

text \<open>
  Arithmetic, comparison with a number and number formatting raise \<open>TypeError\<close> on \<open>None\<close>.
\<close>

definition number :: "real option \<Rightarrow> py_error + real" where
  "number v = (case v of None \<Rightarrow> Inl TypeError | Some x \<Rightarrow> Inr x)"

text \<open>\<open>_update\<close>, main page: three gauges, the load label and bar, the timing label.\<close>

definition update_main :: "OBDDashboard \<Rightarrow> readings \<Rightarrow> py_error + OBDDashboard" where
  "update_main st m =
     bind_err (set_value (speed st) (v_spd m)) (\<lambda>g_speed.
     bind_err (set_value (rpm st) (v_r m)) (\<lambda>g_rpm.
     bind_err (set_value (throttle st) (v_thr m)) (\<lambda>g_throttle.
     bind_err (number (v_ld m)) (\<lambda>ld.
     bind_err (truediv ld 100) (\<lambda>bar.
     bind_err (number (v_tim m)) (\<lambda>tim.
       Inr (st\<lparr>speed := g_speed, rpm := g_rpm, throttle := g_throttle,
               load_bar := bar\<rparr>)))))))"

text \<open>\<open>_update\<close>, the running time.\<close>

definition update_runtime :: "OBDDashboard \<Rightarrow> connection option \<Rightarrow> py_error + OBDDashboard" where
  "update_runtime st conn =
     (if use_sim st then Inr (st\<lparr>runtime := runtime st + 0.1\<rparr>)
      else
        bind_err (read st conn ''run_time'' 0) (\<lambda>rt_v.
        bind_err (number rt_v) (\<lambda>rt.
          Inr (if rt > 0 then st\<lparr>runtime := rt\<rparr> else st))))"

text \<open>\<open>_update\<close>, temperature page.\<close>

definition update_temp :: "OBDDashboard \<Rightarrow> readings \<Rightarrow> py_error + OBDDashboard" where
  "update_temp st m =
     bind_err (set_value (coolant st) (v_cool m)) (\<lambda>g_coolant.
     bind_err (set_value (intake_t st) (v_int_t m)) (\<lambda>g_intake_t.
     bind_err (set_value (oil st) (v_oil m)) (\<lambda>g_oil.
       Inr (st\<lparr>coolant := g_coolant, intake_t := g_intake_t, oil := g_oil\<rparr>))))"

text \<open>The argument of \<open>self.maf_bar.set\<close>: \<open>(maf / mmaf) if mmaf > 0 else 0\<close>.\<close>

definition maf_fraction :: "real option \<Rightarrow> real option \<Rightarrow> py_error + real" where
  "maf_fraction maf_v mmaf_v =
     bind_err (number mmaf_v) (\<lambda>mmaf.
       if mmaf > 0 then bind_err (number maf_v) (\<lambda>maf. truediv maf mmaf) else Inr 0)"

text \<open>\<open>_update\<close>, fuel and air page: three gauges, the MAF label, bar and maximum.\<close>

definition update_fuel :: "OBDDashboard \<Rightarrow> readings \<Rightarrow> py_error + OBDDashboard" where
  "update_fuel st m =
     bind_err (set_value (fuel_p st) (v_fp m)) (\<lambda>g_fuel_p.
     bind_err (set_value (fuel_r st) (v_fr m)) (\<lambda>g_fuel_r.
     bind_err (set_value (intake_p st) (v_ip m)) (\<lambda>g_intake_p.
     bind_err (number (v_maf m)) (\<lambda>maf.
     bind_err (maf_fraction (v_maf m) (v_mmaf m)) (\<lambda>bar.
     bind_err (number (v_mmaf m)) (\<lambda>mmaf.
       Inr (st\<lparr>fuel_p := g_fuel_p, fuel_r := g_fuel_r, intake_p := g_intake_p,
               maf_bar := bar\<rparr>)))))))"

text \<open>Python's \<open>x and x > 0\<close> used as a condition: false on \<open>None\<close> and on 0.\<close>

definition and_positive :: "real option \<Rightarrow> bool" where
  "and_positive x = (case x of None \<Rightarrow> False | Some v \<Rightarrow> v \<noteq> 0 \<and> v > 0)"

text \<open>\<open>_update\<close>, distance and time since the trouble codes were cleared.\<close>

definition update_dtc :: "OBDDashboard \<Rightarrow> connection option \<Rightarrow> randoms \<Rightarrow> py_error + OBDDashboard" where
  "update_dtc st conn rnd =
     (if use_sim st then
        Inr (st\<lparr>dist_dtc := dist_dtc st + rnd_dist rnd, time_dtc := time_dtc st + 0.1\<rparr>)
      else
        bind_err (read st conn ''dist_since_dtc_cleared'' 0) (\<lambda>d.
        bind_err (read st conn ''time_since_dtc_cleared'' 0) (\<lambda>t.
          Inr (st\<lparr>dist_dtc := (if and_positive d then the d else dist_dtc st),
                  time_dtc := (if and_positive t then the t else time_dtc st)\<rparr>))))"

text \<open>\<open>OBDDashboard._update\<close>: one tick.\<close>

definition update :: "OBDDashboard \<Rightarrow> connection option \<Rightarrow> randoms \<Rightarrow> py_error + OBDDashboard" where
  "update st conn rnd =
     bind_err (sample st conn rnd) (\<lambda>m.
     bind_err (update_main st m) (\<lambda>st1.
     bind_err (update_runtime st1 conn) (\<lambda>st2.
     bind_err (update_temp st2 m) (\<lambda>st3.
     bind_err (update_fuel st3 m) (\<lambda>st4.
       update_dtc st4 conn rnd)))))"

text \<open>
  \<open>OBDDashboard._clear_dtc\<close>; \<open>yes\<close> is the answer to the confirmation dialogue.
  \<open>self.commands.get\<close> gives \<open>None\<close> for a missing name. The handler is
  \<open>except Exception as e:\<close> and shows a message.
\<close>

definition clear_dtc :: "OBDDashboard \<Rightarrow> connection option \<Rightarrow> bool \<Rightarrow> py_error + OBDDashboard" where
  "clear_dtc st conn yes =
     (if yes then
        (if \<not> use_sim st then
           try_except_Exception
             (bind_err (read_obd_data conn (commands st ''clear_dtc''))
                (\<lambda>_. Inr (st\<lparr>dist_dtc := 0, time_dtc := 0\<rparr>)))
             (\<lambda>e. Inr st)
         else Inr (st\<lparr>dist_dtc := 0, time_dtc := 0\<rparr>))
      else Inr st)"

text \<open>What happens to a dashboard: a tick or a request to clear the trouble codes.\<close>

datatype event = Tick "connection option" randoms | Clear "connection option" bool

fun step :: "OBDDashboard \<Rightarrow> event \<Rightarrow> py_error + OBDDashboard" where
  "step st (Tick conn rnd) = update st conn rnd"
| "step st (Clear conn yes) = clear_dtc st conn yes"

fun run :: "OBDDashboard \<Rightarrow> event list \<Rightarrow> py_error + OBDDashboard" where
  "run st [] = Inr st"
| "run st (e # es) = bind_err (step st e) (\<lambda>st'. run st' es)"


section \<open>The dashboard of obd_dashboard_gui.py\<close>

text \<open>The counters, the mode and the catalogue of the PyQt dashboard.\<close>

record QtDashboard =
  use_simulation :: bool
  qt_commands :: "string \<rightharpoonup> obd_command"
  runtime_seconds :: real
  distance_since_clear :: real
  time_since_clear :: real

text \<open>\<open>self.commands[name]\<close>: raises \<open>KeyError\<close> for a missing name.\<close>

definition getitem :: "(string \<rightharpoonup> obd_command) \<Rightarrow> string \<Rightarrow> py_error + obd_command" where
  "getitem d k = (case d k of None \<Rightarrow> Inl KeyError | Some c \<Rightarrow> Inr c)"

text \<open>
  \<open>OBDDashboard._clear_dtc_codes\<close>; \<open>yes\<close> is the reply to the question box. The handler
  is \<open>except Exception as e:\<close> and shows a message.
\<close>

definition clear_dtc_codes :: "QtDashboard \<Rightarrow> connection option \<Rightarrow> bool \<Rightarrow> py_error + QtDashboard" where
  "clear_dtc_codes st conn yes =
     (if yes then
        (if \<not> use_simulation st then
           try_except_Exception
             (bind_err (getitem (qt_commands st) ''clear_dtc'') (\<lambda>c.
              bind_err (qt_read_obd_data conn (Some c)) (\<lambda>_.
                Inr (st\<lparr>distance_since_clear := 0, time_since_clear := 0\<rparr>))))
             (\<lambda>e. Inr st)
         else Inr (st\<lparr>distance_since_clear := 0, time_since_clear := 0\<rparr>))
      else Inr st)"

text \<open>\<open>OBDDashboard._read_obd_value\<close>. The handler is \<open>except Exception as e:\<close>.\<close>

definition read_obd_value :: "QtDashboard \<Rightarrow> connection option \<Rightarrow> string \<Rightarrow> real \<Rightarrow> py_error + real option" where
  "read_obd_value st conn command_name dflt =
     (if use_simulation st \<or> command_name \<notin> dom (qt_commands st) then Inr None
      else
        (case try_except_Exception
                (bind_err (getitem (qt_commands st) command_name)
                   (\<lambda>c. qt_read_obd_data conn (Some c)))
                (\<lambda>e. Inr None) of
           Inr (Some result) \<Rightarrow> Inr (Some result)
         | Inr None \<Rightarrow> Inr (Some dflt)
         | Inl e \<Rightarrow> Inl e))"

text \<open>
  \<open>_update_data\<close>, the argument of \<open>self.maf_progress.setValue\<close>:
  \<open>int((maf / max_maf) * 100) if max_maf > 0 else 0\<close>.
\<close>

definition maf_progress :: "real option \<Rightarrow> real option \<Rightarrow> py_error + int" where
  "maf_progress maf_v max_maf_v =
     bind_err (number max_maf_v) (\<lambda>max_maf.
       if max_maf > 0
       then bind_err (number maf_v) (\<lambda>maf.
            bind_err (truediv maf max_maf) (\<lambda>q. Inr (py_int (q * 100))))
       else Inr 0)"

text \<open>\<open>_update_data\<close>, the running time.\<close>

definition qt_update_runtime :: "QtDashboard \<Rightarrow> connection option \<Rightarrow> py_error + QtDashboard" where
  "qt_update_runtime st conn =
     (if use_simulation st then Inr (st\<lparr>runtime_seconds := runtime_seconds st + 0.1\<rparr>)
      else
        bind_err (read_obd_value st conn ''run_time'' 0) (\<lambda>rt_v.
        bind_err (number rt_v) (\<lambda>rt.
          Inr (if rt > 0 then st\<lparr>runtime_seconds := rt\<rparr> else st))))"

text \<open>\<open>_update_data\<close>, distance and time since the trouble codes were cleared.\<close>

definition qt_update_dtc :: "QtDashboard \<Rightarrow> connection option \<Rightarrow> randoms \<Rightarrow> py_error + QtDashboard" where
  "qt_update_dtc st conn rnd =
     (if use_simulation st then
        Inr (st\<lparr>distance_since_clear := distance_since_clear st + rnd_dist rnd,
                time_since_clear := time_since_clear st + 0.1\<rparr>)
      else
        bind_err (read_obd_value st conn ''dist_since_dtc_cleared'' 0) (\<lambda>dist.
        bind_err (read_obd_value st conn ''time_since_dtc_cleared'' 0) (\<lambda>time_val.
          Inr (st\<lparr>distance_since_clear :=
                    (if and_positive dist then the dist else distance_since_clear st),
                  time_since_clear :=
                    (if and_positive time_val then the time_val else time_since_clear st)\<rparr>))))"


section \<open>Auxiliary definitions for the proofs\<close>

text \<open>The canvas that \<open>draw\<close> leaves for a gauge whose range is not empty.\<close>

definition painted :: "GaugeWidget \<Rightarrow> canvas_items" where
  "painted g =
     \<lparr>arc_extent = - 270 * ((cur_value g - min_val g) / (max_val g - min_val g)),
      marks = draw_marks g,
      needle_angle = draw_needle ((cur_value g - min_val g) / (max_val g - min_val g)),
      value_text = py_int (cur_value g)\<rparr>"

text \<open>
  What holds of a gauge after construction and after every \<open>set_value\<close>: once something
  has been drawn through \<open>set_value\<close>, the stored value is the last drawn one, lies in
  the range, and the canvas shows it.
\<close>

definition gauge_inv :: "GaugeWidget \<Rightarrow> bool" where
  "gauge_inv g =
     (min_val g < max_val g \<and>
      (case last_drawn_value g of
         None \<Rightarrow> True
       | Some l \<Rightarrow> cur_value g = l \<and> min_val g \<le> l \<and> l \<le> max_val g \<and>
                  canvas g = Some (painted g)))"



section \<open>Facts about rounding\<close>

lemma rne_unique:
  assumes "\<bar>y - of_int m\<bar> < 1/2"
  shows "rne y = m"
proof -
  have "\<lfloor>y\<rfloor> = m \<or> \<lfloor>y\<rfloor> = m - 1" using assms by linarith
  then show ?thesis
  proof
    assume f: "\<lfloor>y\<rfloor> = m"
    then have "y - of_int \<lfloor>y\<rfloor> < 1/2" using assms by linarith
    then show ?thesis by (simp add: rne_def f)
  next
    assume f: "\<lfloor>y\<rfloor> = m - 1"
    have "y - of_int (m - 1) > 1/2" using assms unfolding abs_less_iff by auto
    then show ?thesis by (simp add: rne_def f)
  qed
qed

lemma fl_zero: "fl 0 = 0"
  by (simp add: fl_def)

lemma floor_log2_scaled:
  assumes "2 ^ 52 \<le> \<bar>x\<bar> * 2 ^ k" "\<bar>x\<bar> * 2 ^ k < 2 ^ 53"
  shows "\<lfloor>log 2 \<bar>x\<bar>\<rfloor> = 52 - int k"
proof -
  have pos: "0 < \<bar>x\<bar>" using assms(1) by (cases "x = 0") auto
  have p: "(2::real) powr of_int (52 - int k) = 2 ^ 52 / 2 ^ k"
    by (simp add: powr_diff powr_realpow flip: powr_realpow [of 2 52])
  have q: "(2::real) powr of_int (52 - int k + 1) = 2 ^ 53 / 2 ^ k"
    by (simp add: powr_diff powr_add powr_realpow)
  have "2 powr of_int (52 - int k) \<le> \<bar>x\<bar> \<and> \<bar>x\<bar> < 2 powr of_int (52 - int k + 1)"
    unfolding p q using assms by (simp add: field_simps)
  then show ?thesis using floor_log_eq_powr_iff [OF pos, of 2 "52 - int k"] by simp
qed

text \<open>
  The rounding of a number whose exponent is known: scaled by \<open>2^k\<close> into
  \<open>[2^52, 2^53)\<close>, it is rounded to an integer and scaled back.
\<close>

lemma fl_eval:
  assumes "2 ^ 52 \<le> \<bar>x\<bar> * 2 ^ k" "\<bar>x\<bar> * 2 ^ k < 2 ^ 53"
  shows "fl x = of_int (rne (x * 2 ^ k)) / 2 ^ k"
proof -
  have nz: "x \<noteq> 0" using assms(1) by auto
  have e: "\<lfloor>log 2 \<bar>x\<bar>\<rfloor> - 52 = - int k" using floor_log2_scaled [OF assms] by simp
  have u: "(2::real) powr of_int (- int k) = 1 / 2 ^ k"
    by (simp add: powr_minus powr_realpow inverse_eq_divide)
  show ?thesis unfolding fl_def Let_def e u using nz by simp
qed

lemma fl_near:
  assumes "2 ^ 52 \<le> \<bar>x\<bar> * 2 ^ k" "\<bar>x\<bar> * 2 ^ k < 2 ^ 53" "\<bar>x * 2 ^ k - of_int m\<bar> < 1/2"
  shows "fl x = of_int m / 2 ^ k"
  using fl_eval [OF assms(1,2)] rne_unique [OF assms(3)] by simp

lemma fl_scaled_int:
  assumes "2 ^ 52 \<le> \<bar>x\<bar> * 2 ^ k" "\<bar>x\<bar> * 2 ^ k < 2 ^ 53" "x * 2 ^ k = of_int m"
  shows "fl x = x"
proof -
  have "fl x = of_int m / 2 ^ k" using fl_near [OF assms(1,2), of m] assms(3) by simp
  also have "\<dots> = x" using assms(3) [symmetric] by simp
  finally show ?thesis .
qed

lemma normalise_nat:
  fixes n :: nat
  shows "0 < n \<Longrightarrow> n < 2 ^ Suc m \<Longrightarrow> \<exists>t. 2 ^ m \<le> n * 2 ^ t \<and> n * 2 ^ t < 2 ^ Suc m"
proof (induction m)
  case 0
  then have "n = 1" by simp
  then show ?case by (intro exI [of _ 0]) simp
next
  case (Suc m)
  show ?case
  proof (cases "2 ^ Suc m \<le> n")
    case True
    with Suc.prems show ?thesis by (intro exI [of _ 0]) simp
  next
    case False
    then have "n < 2 ^ Suc m" by simp
    from Suc.IH [OF Suc.prems(1) this] obtain t where
      t: "2 ^ m \<le> n * 2 ^ t" "n * 2 ^ t < 2 ^ Suc m" by blast
    then show ?thesis by (intro exI [of _ "Suc t"]) simp
  qed
qed

text \<open>A number with a significand of at most 53 bits is its own rounding.\<close>

lemma fl_dyadic:
  assumes "\<bar>n\<bar> < 2 ^ 53"
  shows "fl (of_int n / 2 ^ j) = of_int n / 2 ^ j"
proof (cases "n = 0")
  case True
  then show ?thesis by (simp add: fl_zero)
next
  case False
  let ?a = "nat \<bar>n\<bar>"
  from False have a0: "0 < ?a" by simp
  from assms have "?a < 2 ^ Suc 52" by (simp add: nat_less_iff)
  from normalise_nat [OF a0 this] obtain t where
    t: "2 ^ 52 \<le> ?a * 2 ^ t" "?a * 2 ^ t < 2 ^ Suc 52" by blast
  let ?x = "real_of_int n / 2 ^ j"
  have ax: "\<bar>?x\<bar> * 2 ^ (j + t) = real (?a * 2 ^ t)"
    by (simp add: power_add abs_mult)
  have s: "?x * 2 ^ (j + t) = of_int (n * 2 ^ t)"
    by (simp add: power_add)
  have "real (2 ^ 52) \<le> real (?a * 2 ^ t)" using t(1) by (rule of_nat_mono)
  then have lo: "2 ^ 52 \<le> \<bar>?x\<bar> * 2 ^ (j + t)" unfolding ax by simp
  have "real (?a * 2 ^ t) < real (2 ^ Suc 52)" using t(2) by (simp only: of_nat_less_iff)
  then have hi: "\<bar>?x\<bar> * 2 ^ (j + t) < 2 ^ 53" unfolding ax by simp
  from fl_scaled_int [OF lo hi s] show ?thesis .
qed

lemma fl_of_int: "\<bar>n\<bar> < 2 ^ 53 \<Longrightarrow> fl (of_int n) = of_int n"
  using fl_dyadic [of n 0] by simp

lemma fl_eighths: "\<bar>n\<bar> < 2 ^ 53 \<Longrightarrow> fl (of_int n / 8) = of_int n / 8"
  using fl_dyadic [of n 3] by simp

text \<open>The floats that the literals 50.3, 50.6, 0.55 and 0.05 denote.\<close>

lemma fl_50_3: "fl 50.3 = real_of_int 7079095664272998 / 2 ^ 47"
proof (rule fl_near)
  show "2 ^ 52 \<le> \<bar>50.3 :: real\<bar> * 2 ^ 47" by simp
  show "\<bar>50.3 :: real\<bar> * 2 ^ 47 < 2 ^ 53" by simp
  show "\<bar>50.3 * 2 ^ 47 - real_of_int 7079095664272998\<bar> < 1 / 2" by simp
qed

lemma fl_50_6: "fl 50.6 = real_of_int 7121316910779597 / 2 ^ 47"
proof (rule fl_near)
  show "2 ^ 52 \<le> \<bar>50.6 :: real\<bar> * 2 ^ 47" by simp
  show "\<bar>50.6 :: real\<bar> * 2 ^ 47 < 2 ^ 53" by simp
  show "\<bar>50.6 * 2 ^ 47 - real_of_int 7121316910779597\<bar> < 1 / 2" by simp
qed

lemma fl_0_55: "fl 0.55 = real_of_int 4953959590107546 / 2 ^ 53"
proof (rule fl_near)
  show "2 ^ 52 \<le> \<bar>0.55 :: real\<bar> * 2 ^ 53" by simp
  show "\<bar>0.55 :: real\<bar> * 2 ^ 53 < 2 ^ 53" by simp
  show "\<bar>0.55 * 2 ^ 53 - real_of_int 4953959590107546\<bar> < 1 / 2" by simp
qed

lemma fl_0_05: "fl 0.05 = real_of_int 7205759403792794 / 2 ^ 57"
proof (rule fl_near)
  show "2 ^ 52 \<le> \<bar>0.05 :: real\<bar> * 2 ^ 57" by simp
  show "\<bar>0.05 :: real\<bar> * 2 ^ 57 < 2 ^ 53" by simp
  show "\<bar>0.05 * 2 ^ 57 - real_of_int 7205759403792794\<bar> < 1 / 2" by simp
qed

lemma fsub_same: "fsub a a = 0"
  by (simp add: fsub_def fl_zero)

text \<open>The difference of the floats 50.3 and 50 is about 0.3, that of 50.6 and 50 about 0.6.\<close>

lemma fsub_50_3: "fsub (fl 50.3) 50 = fl 50.3 - 50"
proof -
  have "fl 50.3 - 50 = real_of_int 42221246506598 / 2 ^ 47"
    unfolding fl_50_3 by simp
  moreover have "fl (real_of_int 42221246506598 / 2 ^ 47) = real_of_int 42221246506598 / 2 ^ 47"
    by (rule fl_dyadic) simp
  ultimately show ?thesis unfolding fsub_def by (simp only:)
qed

lemma fsub_50_6: "fsub (fl 50.6) 50 = fl 50.6 - 50"
proof -
  have "fl 50.6 - 50 = real_of_int 84442493013197 / 2 ^ 47"
    unfolding fl_50_6 by simp
  moreover have "fl (real_of_int 84442493013197 / 2 ^ 47) = real_of_int 84442493013197 / 2 ^ 47"
    by (rule fl_dyadic) simp
  ultimately show ?thesis unfolding fsub_def by (simp only:)
qed

lemma near_50_3: "\<not> \<bar>fsub (fl 50.3) 50\<bar> > 0.5"
  unfolding fsub_50_3 unfolding fl_50_3 by simp

lemma far_50_6: "\<bar>fsub (fl 50.6) 50\<bar> > 0.5"
  unfolding fsub_50_6 unfolding fl_50_6 by simp

lemma fl_50_3_bounds: "50 \<le> fl 50.3" "fl 50.3 \<le> 51"
  unfolding fl_50_3 by simp_all

lemma fl_50_6_bounds: "50 \<le> fl 50.6" "fl 50.6 \<le> 51"
  unfolding fl_50_6 by simp_all

text \<open>
  The floats 0.55 and 0.05 differ by more than one half, and their floating-point
  difference is one half.
\<close>

lemma fsub_0_55: "fsub (fl 0.55) (fl 0.05) = 1 / 2"
proof -
  have d: "fl 0.55 - fl 0.05 = real_of_int 36028797018963971 / 2 ^ 56"
    unfolding fl_0_55 fl_0_05 by simp
  have "fl (real_of_int 36028797018963971 / 2 ^ 56) = real_of_int 4503599627370496 / 2 ^ 53"
  proof (rule fl_near)
    show "2 ^ 52 \<le> \<bar>real_of_int 36028797018963971 / 2 ^ 56\<bar> * 2 ^ 53" by simp
    show "\<bar>real_of_int 36028797018963971 / 2 ^ 56\<bar> * 2 ^ 53 < 2 ^ 53" by simp
    show "\<bar>real_of_int 36028797018963971 / 2 ^ 56 * 2 ^ 53 - real_of_int 4503599627370496\<bar> < 1 / 2"
      by simp
  qed
  also have "\<dots> = 1 / 2" by simp
  finally show ?thesis unfolding fsub_def d .
qed

lemma exact_diff_0_55: "\<bar>fl 0.55 - fl 0.05\<bar> > 1 / 2"
  unfolding fl_0_55 fl_0_05 by simp

lemma fl_0_55_bounds: "fl 0.05 \<le> fl 0.55" "0 \<le> fl 0.05" "fl 0.55 \<le> 1"
  unfolding fl_0_55 fl_0_05 by simp_all

text \<open>
  For a range between integers of moderate size, the value behind the label of a tick
  mark is computed without rounding.
\<close>

lemma tick_value_exact:
  assumes "\<bar>a\<bar> \<le> 2 ^ 40" "\<bar>b\<bar> \<le> 2 ^ 40" "i \<le> 8"
  shows "fadd (of_int a) (fdiv (fmul (fsub (of_int b) (of_int a)) (real i)) 8)
       = of_int a + (of_int b - of_int a) * real i / 8"
proof -
  let ?n = "(b - a) * int i"
  from assms(1,2) have d: "\<bar>b - a\<bar> \<le> 2 ^ 41" by simp
  have "\<bar>?n\<bar> = \<bar>b - a\<bar> * int i" by (simp add: abs_mult)
  also have "\<dots> \<le> 2 ^ 41 * 8" using d assms(3) by (intro mult_mono) simp_all
  finally have n: "\<bar>?n\<bar> \<le> 2 ^ 44" by simp
  have s: "fsub (of_int b) (of_int a) = of_int (b - a)"
    unfolding fsub_def using fl_of_int [of "b - a"] d by simp
  have m: "fmul (of_int (b - a)) (real i) = of_int ?n"
    unfolding fmul_def using fl_of_int [of ?n] n by simp
  have q: "fdiv (of_int ?n) 8 = of_int ?n / 8"
    unfolding fdiv_def using fl_eighths [of ?n] n by simp
  have "\<bar>8 * a + ?n\<bar> \<le> \<bar>8 * a\<bar> + \<bar>?n\<bar>" by (rule abs_triangle_ineq)
  also have "\<dots> = 8 * \<bar>a\<bar> + \<bar>?n\<bar>" by (simp add: abs_mult)
  also have "\<dots> \<le> 8 * 2 ^ 40 + 2 ^ 44" using assms(1) n by simp
  finally have t: "\<bar>8 * a + ?n\<bar> < 2 ^ 53" by simp
  have "fadd (of_int a) (of_int ?n / 8) = fl (of_int (8 * a + ?n) / 8)"
    unfolding fadd_def by (simp add: field_simps)
  also have "\<dots> = of_int (8 * a + ?n) / 8" using t by (rule fl_eighths)
  also have "\<dots> = of_int a + (of_int b - of_int a) * real i / 8" by (simp add: field_simps)
  finally show ?thesis unfolding s m q .
qed


section \<open>Basic facts\<close>

lemma truediv_ok: "b \<noteq> 0 \<Longrightarrow> truediv a b = Inr (a / b)"
  by (simp add: truediv_def)

lemma bind_err_Inr: "bind_err (Inr v) f = f v"
  by (simp add: bind_err_def)


lemma draw_ok:
  assumes "min_val g \<noteq> max_val g"
  shows "draw g = Inr (g\<lparr>canvas := Some (painted g), draw_calls := Suc (draw_calls g)\<rparr>)"
proof -
  from assms have "max_val g - min_val g \<noteq> 0" by simp
  then have "truediv (cur_value g - min_val g) (max_val g - min_val g)
     = Inr ((cur_value g - min_val g) / (max_val g - min_val g))" by (rule truediv_ok)
  then show ?thesis
    unfolding draw_def painted_def by (simp only: bind_err_Inr)
qed

lemma draw_fails: "min_val g = max_val g \<Longrightarrow> draw g = Inl ZeroDivisionError"
  by (simp add: draw_def truediv_def bind_err_def)

lemma painted_cong:
  "min_val g' = min_val g \<Longrightarrow> max_val g' = max_val g \<Longrightarrow> cur_value g' = cur_value g
   \<Longrightarrow> painted g' = painted g"
  by (simp add: painted_def draw_marks_def)

lemma arc_extent_painted_min: "cur_value g = min_val g \<Longrightarrow> arc_extent (painted g) = 0"
  by (simp add: painted_def)

lemma arc_extent_painted_max:
  "cur_value g = max_val g \<Longrightarrow> min_val g \<noteq> max_val g \<Longrightarrow> arc_extent (painted g) = - 270"
  by (simp add: painted_def)

lemma paintEvent_ok:
  assumes "min_value g \<noteq> max_value g"
  shows "paintEvent g =
     Inr \<lparr>background_arc = (3600, 4320),
          active_arc = (3600, py_int (270 * ((current_value g - min_value g)
                                              / (max_value g - min_value g)) * 16)),
          scale_marks = draw_scale_marks g,
          qt_needle_angle = 225 - 270 * ((current_value g - min_value g)
                                          / (max_value g - min_value g)),
          qt_value_text = py_int (current_value g)\<rparr>"
proof -
  from assms have "max_value g - min_value g \<noteq> 0" by simp
  then have "truediv (current_value g - min_value g) (max_value g - min_value g)
     = Inr ((current_value g - min_value g) / (max_value g - min_value g))" by (rule truediv_ok)
  then show ?thesis
    unfolding paintEvent_def
    by (simp only: bind_err_Inr Let_def start_angle_def span_angle_def) simp
qed


section \<open>Facts about \<open>set_value\<close>\<close>

lemma set_value_redraw:
  assumes "min_val g \<noteq> max_val g"
    and "(case last_drawn_value g of None \<Rightarrow> True
          | Some l \<Rightarrow> \<bar>fsub (max (min_val g) (min (max_val g) v)) l\<bar> > 0.5)"
  shows "set_value g (Some v) =
     Inr (g\<lparr>cur_value := max (min_val g) (min (max_val g) v),
            last_drawn_value := Some (max (min_val g) (min (max_val g) v)),
            canvas := Some (painted (g\<lparr>cur_value := max (min_val g) (min (max_val g) v)\<rparr>)),
            draw_calls := Suc (draw_calls g)\<rparr>)"
proof -
  let ?n = "max (min_val g) (min (max_val g) v)"
  let ?g = "g\<lparr>cur_value := ?n, last_drawn_value := Some ?n\<rparr>"
  have "set_value g (Some v) = draw ?g"
    using assms(2) by (simp add: set_value_def Let_def)
  also have "\<dots> = Inr (?g\<lparr>canvas := Some (painted ?g), draw_calls := Suc (draw_calls ?g)\<rparr>)"
    using assms(1) by (intro draw_ok) simp
  also have "painted ?g = painted (g\<lparr>cur_value := ?n\<rparr>)"
    by (rule painted_cong) simp_all
  finally show ?thesis by simp
qed

lemma set_value_noop:
  assumes "last_drawn_value g = Some l"
    and "\<not> \<bar>fsub (max (min_val g) (min (max_val g) v)) l\<bar> > 0.5"
  shows "set_value g (Some v) = Inr g"
  using assms by (simp add: set_value_def Let_def)

lemma set_value_cases:
  assumes "min_val g \<noteq> max_val g"
  shows "set_value g (Some v) =
     Inr (g\<lparr>cur_value := max (min_val g) (min (max_val g) v),
            last_drawn_value := Some (max (min_val g) (min (max_val g) v)),
            canvas := Some (painted (g\<lparr>cur_value := max (min_val g) (min (max_val g) v)\<rparr>)),
            draw_calls := Suc (draw_calls g)\<rparr>)
   \<or> (\<exists>l. last_drawn_value g = Some l
          \<and> \<bar>fsub (max (min_val g) (min (max_val g) v)) l\<bar> \<le> 0.5
          \<and> set_value g (Some v) = Inr g)"
proof (cases "(case last_drawn_value g of None \<Rightarrow> True
          | Some l \<Rightarrow> \<bar>fsub (max (min_val g) (min (max_val g) v)) l\<bar> > 0.5)")
  case True
  from set_value_redraw [OF assms True] show ?thesis by (rule disjI1)
next
  case False
  then obtain l where l: "last_drawn_value g = Some l"
    "\<not> \<bar>fsub (max (min_val g) (min (max_val g) v)) l\<bar> > 0.5"
    by (cases "last_drawn_value g") simp_all
  from l(2) have "\<bar>fsub (max (min_val g) (min (max_val g) v)) l\<bar> \<le> 0.5" by simp
  with l(1) set_value_noop [OF l] show ?thesis by blast
qed

lemma set_value_None: "set_value g None = Inl TypeError"
  by (simp add: set_value_def)

lemma set_value_inv:
  assumes "gauge_inv g" and "set_value g v = Inr g'"
  shows "gauge_inv g' \<and> min_val g' = min_val g \<and> max_val g' = max_val g"
proof (cases v)
  case None
  with assms(2) show ?thesis by (simp add: set_value_None)
next
  case (Some x)
  let ?n = "max (min_val g) (min (max_val g) x)"
  from assms(1) have lt: "min_val g < max_val g" by (simp add: gauge_inv_def)
  then have ne: "min_val g \<noteq> max_val g" by simp
  from set_value_cases [OF ne, of x] show ?thesis
  proof (elim disjE exE conjE)
    assume "set_value g (Some x) =
      Inr (g\<lparr>cur_value := ?n, last_drawn_value := Some ?n,
             canvas := Some (painted (g\<lparr>cur_value := ?n\<rparr>)),
             draw_calls := Suc (draw_calls g)\<rparr>)"
    with assms(2) Some
    have g': "g' = g\<lparr>cur_value := ?n, last_drawn_value := Some ?n,
      canvas := Some (painted (g\<lparr>cur_value := ?n\<rparr>)), draw_calls := Suc (draw_calls g)\<rparr>"
      by simp
    have "painted g' = painted (g\<lparr>cur_value := ?n\<rparr>)"
      by (rule painted_cong) (simp_all add: g')
    with lt show ?thesis by (simp add: gauge_inv_def g')
  next
    fix l assume "set_value g (Some x) = Inr g"
    with assms Some show ?thesis by simp
  qed
qed

lemma set_value_drawn:
  assumes "min_val g \<noteq> max_val g" and "set_value g (Some x) = Inr g'"
  shows "last_drawn_value g' \<noteq> None"
  using set_value_cases [OF assms(1), of x] assms(2) by auto

lemma set_value_total:
  assumes "min_val g \<noteq> max_val g"
  shows "\<exists>g'. set_value g (Some x) = Inr g'"
  using set_value_cases [OF assms, of x] by auto

lemma set_value_near_clamp:
  assumes "gauge_inv g" and "set_value g (Some x) = Inr g'"
  shows "\<bar>fsub (max (min_val g) (min (max_val g) x)) (cur_value g')\<bar> \<le> 0.5"
proof -
  from assms(1) have ne: "min_val g \<noteq> max_val g" by (simp add: gauge_inv_def)
  from set_value_cases [OF ne, of x] show ?thesis
  proof (elim disjE exE conjE)
    assume "set_value g (Some x) =
      Inr (g\<lparr>cur_value := max (min_val g) (min (max_val g) x),
             last_drawn_value := Some (max (min_val g) (min (max_val g) x)),
             canvas := Some (painted (g\<lparr>cur_value := max (min_val g) (min (max_val g) x)\<rparr>)),
             draw_calls := Suc (draw_calls g)\<rparr>)"
    with assms(2) show ?thesis by (auto simp add: fsub_same)
  next
    fix l
    assume "last_drawn_value g = Some l" "\<bar>fsub (max (min_val g) (min (max_val g) x)) l\<bar> \<le> 0.5"
      "set_value g (Some x) = Inr g"
    with assms show ?thesis by (simp add: gauge_inv_def)
  qed
qed

lemma set_values_inv:
  "gauge_inv g \<Longrightarrow> set_values g vs = Inr g'
   \<Longrightarrow> gauge_inv g' \<and> min_val g' = min_val g \<and> max_val g' = max_val g"
proof (induction vs arbitrary: g)
  case Nil
  then show ?case by simp
next
  case (Cons v vs)
  from Cons.prems(2) obtain g1 where g1: "set_value g v = Inr g1" "set_values g1 vs = Inr g'"
    by (cases "set_value g v") (simp_all add: bind_err_def)
  from set_value_inv [OF Cons.prems(1) g1(1)] Cons.IH [OF _ g1(2)]
  show ?case by simp
qed

lemma GaugeWidget_init_inv:
  assumes "mn < mx" and "GaugeWidget_init mn mx = Inr g0"
  shows "gauge_inv g0 \<and> min_val g0 = mn \<and> max_val g0 = mx"
proof -
  let ?g = "\<lparr>min_val = mn, max_val = mx, cur_value = 0, last_drawn_value = None,
           canvas = None, draw_calls = 0\<rparr>"
  from assms(1) have "min_val ?g \<noteq> max_val ?g" by simp
  from draw_ok [OF this] assms show ?thesis
    by (auto simp add: GaugeWidget_init_def gauge_inv_def)
qed

lemma ratio_bounds:
  fixes v :: real
  assumes "mn < mx" "mn \<le> v" "v \<le> mx"
  shows "0 \<le> (v - mn) / (mx - mn)" "(v - mn) / (mx - mn) \<le> 1"
  using assms by simp_all

lemma sweep_bounds:
  fixes r :: real
  assumes "0 \<le> r" "r \<le> 1"
  shows "\<bar>- 270 * r\<bar> \<le> 270" "225 - 270 \<le> 225 - 270 * r" "225 - 270 * r \<le> 225"
  using assms by (simp_all add: abs_mult abs_of_nonneg)

lemma gauge_inv_geometry:
  assumes "gauge_inv g" and "last_drawn_value g \<noteq> None"
  shows "min_val g \<le> cur_value g \<and> cur_value g \<le> max_val g
       \<and> (\<exists>c. canvas g = Some c
              \<and> arc_extent c = - 270 * ((cur_value g - min_val g) / (max_val g - min_val g))
              \<and> needle_angle c = 225 - 270 * ((cur_value g - min_val g) / (max_val g - min_val g))
              \<and> \<bar>arc_extent c\<bar> \<le> 270
              \<and> 225 - 270 \<le> needle_angle c \<and> needle_angle c \<le> 225)"
proof -
  from assms obtain l where l: "last_drawn_value g = Some l" by auto
  with assms(1) have lt: "min_val g < max_val g"
    and v: "min_val g \<le> cur_value g" "cur_value g \<le> max_val g"
    and c: "canvas g = Some (painted g)"
    by (simp_all add: gauge_inv_def)
  let ?r = "(cur_value g - min_val g) / (max_val g - min_val g)"
  from ratio_bounds [OF lt v] have r: "0 \<le> ?r" "?r \<le> 1" .
  note b = sweep_bounds [OF r]
  have e: "arc_extent (painted g) = - 270 * ?r"
    and n: "needle_angle (painted g) = 225 - 270 * ?r"
    unfolding painted_def draw_needle_def by (simp_all only: canvas_items.simps)
  have "\<exists>c. canvas g = Some c
              \<and> arc_extent c = - 270 * ?r
              \<and> needle_angle c = 225 - 270 * ?r
              \<and> \<bar>arc_extent c\<bar> \<le> 270
              \<and> 225 - 270 \<le> needle_angle c \<and> needle_angle c \<le> 225"
  proof (intro exI [of _ "painted g"] conjI)
    show "canvas g = Some (painted g)" by (rule c)
    show "arc_extent (painted g) = - 270 * ?r" by (rule e)
    show "needle_angle (painted g) = 225 - 270 * ?r" by (rule n)
    show "\<bar>arc_extent (painted g)\<bar> \<le> 270" unfolding e by (rule b(1))
    show "225 - 270 \<le> needle_angle (painted g)" unfolding n by (rule b(2))
    show "needle_angle (painted g) \<le> 225" unfolding n by (rule b(3))
  qed
  with v show ?thesis by blast
qed

lemma set_value_twice:
  assumes "min_val g \<noteq> max_val g" and "set_value g (Some v) = Inr g'"
  shows "set_value g' (Some v) = Inr g'"
proof -
  let ?n = "max (min_val g) (min (max_val g) v)"
  from set_value_cases [OF assms(1), of v] show ?thesis
  proof (elim disjE exE conjE)
    assume "set_value g (Some v) =
      Inr (g\<lparr>cur_value := ?n, last_drawn_value := Some ?n,
             canvas := Some (painted (g\<lparr>cur_value := ?n\<rparr>)),
             draw_calls := Suc (draw_calls g)\<rparr>)"
    with assms(2)
    have g': "g' = g\<lparr>cur_value := ?n, last_drawn_value := Some ?n,
      canvas := Some (painted (g\<lparr>cur_value := ?n\<rparr>)), draw_calls := Suc (draw_calls g)\<rparr>"
      by simp
    show ?thesis
      by (rule set_value_noop [of _ ?n]) (simp_all add: g' fsub_same)
  next
    fix l assume "set_value g (Some v) = Inr g"
    with assms(2) show ?thesis by simp
  qed
qed

lemma clamp_in_range:
  fixes mn mx v :: real
  assumes "mn \<le> v" "v \<le> mx"
  shows "max mn (min mx v) = v"
  using assms by (simp add: max_def min_def)

lemma py_int_of_int: "py_int (of_int n) = n"
  by (simp add: py_int_def)

lemma draw_marks_nth:
  "i < 9 \<Longrightarrow> draw_marks g ! i =
     (225 - (270 * real i / 8),
      py_int (fadd (min_val g) (fdiv (fmul (fsub (max_val g) (min_val g)) (real i)) 8)))"
  unfolding draw_marks_def by (simp del: upt_Suc)

lemma draw_scale_marks_nth:
  "i < 9 \<Longrightarrow> draw_scale_marks g ! i =
     (225 - (270 * real i / 8),
      py_int (fadd (min_value g) (fdiv (fmul (fsub (max_value g) (min_value g)) (real i)) 8)))"
  unfolding draw_scale_marks_def start_angle_def span_angle_def by (simp del: upt_Suc)

lemma tick_value_8000:
  assumes "i \<le> 8"
  shows "py_int (fadd 0 (fdiv (fmul (fsub 8000 0) (real i)) 8)) = 1000 * int i"
proof -
  have "fadd 0 (fdiv (fmul (fsub 8000 0) (real i)) 8) = of_int (1000 * int i)"
    using tick_value_exact [of 0 8000 i] assms by simp
  then show ?thesis by (simp only: py_int_of_int)
qed

lemma tick_angles: "map (\<lambda>i. 225 - (270 * real i / 8)) [0..<9]
   = [225, 191.25, 157.5, 123.75, 90, 56.25, 22.5, - 11.25, - 45]"
  by (simp add: upt_rec)

lemma thousands: "map (\<lambda>i. 1000 * int i) [0..<9]
   = [0, 1000, 2000, 3000, 4000, 5000, 6000, 7000, 8000]"
  by (simp add: upt_rec)

lemma draw_marks_labels_8000:
  assumes "min_val g = 0" "max_val g = 8000"
  shows "map snd (draw_marks g) = [0, 1000, 2000, 3000, 4000, 5000, 6000, 7000, 8000]"
proof -
  have "map snd (draw_marks g) = map (\<lambda>i. 1000 * int i) [0..<9]"
    unfolding draw_marks_def map_map assms
    by (rule map_cong) (simp_all add: tick_value_8000 del: upt_Suc)
  then show ?thesis by (simp only: thousands)
qed

lemma draw_scale_marks_labels_8000:
  assumes "min_value g = 0" "max_value g = 8000"
  shows "map snd (draw_scale_marks g) = [0, 1000, 2000, 3000, 4000, 5000, 6000, 7000, 8000]"
proof -
  have "map snd (draw_scale_marks g) = map (\<lambda>i. 1000 * int i) [0..<9]"
    unfolding draw_scale_marks_def map_map assms
    by (rule map_cong) (simp_all add: tick_value_8000 del: upt_Suc)
  then show ?thesis by (simp only: thousands)
qed

lemma draw_scale_marks_8000:
  assumes "min_value g = 0" "max_value g = 8000"
  shows "draw_scale_marks g =
     [(225, 0), (191.25, 1000), (157.5, 2000), (123.75, 3000), (90, 4000), (56.25, 5000),
      (22.5, 6000), (- 11.25, 7000), (- 45, 8000)]"
proof -
  have "map fst (draw_scale_marks g) = map (\<lambda>i. 225 - (270 * real i / 8)) [0..<9]"
    unfolding draw_scale_marks_def map_map start_angle_def span_angle_def
    by (rule map_cong) (simp_all del: upt_Suc)
  then have "map fst (draw_scale_marks g)
      = [225, 191.25, 157.5, 123.75, 90, 56.25, 22.5, - 11.25, - 45]"
    by (simp only: tick_angles)
  moreover note draw_scale_marks_labels_8000 [OF assms]
  moreover have "draw_scale_marks g = zip (map fst (draw_scale_marks g)) (map snd (draw_scale_marks g))"
    by (simp only: zip_map_fst_snd)
  ultimately show ?thesis by simp
qed


section \<open>Clamping keeps the drawing inside the arc\<close>

text \<open>
  C1. Take a gauge constructed with \<open>min < max\<close> and any sequence of \<open>set_value\<close> calls
  on it. Then a further \<open>set_value\<close> with any raw number (in particular one in
  \<open>[min - 100, max + 100]\<close>) returns, the stored value lies in \<open>[min, max]\<close> and is the
  clamped raw number up to the redraw threshold (their floating-point difference is at
  most 0.5), and the canvas shows the geometry of that stored value: the active arc's extent is \<open>-270 * ratio\<close> with magnitude at most 270, and
  the needle's angle \<open>225 - 270 * ratio\<close> lies in \<open>[225 - 270, 225]\<close>.
\<close>

theorem set_value_stays_in_arc:
  assumes "mn < mx" and "GaugeWidget_init mn mx = Inr g0" and "set_values g0 raws = Inr g"
  shows "\<exists>g' c. set_value g (Some raw) = Inr g'
            \<and> mn \<le> cur_value g' \<and> cur_value g' \<le> mx
            \<and> \<bar>fsub (max mn (min mx raw)) (cur_value g')\<bar> \<le> 0.5
            \<and> canvas g' = Some c
            \<and> arc_extent c = - 270 * ((cur_value g' - mn) / (mx - mn))
            \<and> needle_angle c = 225 - 270 * ((cur_value g' - mn) / (mx - mn))
            \<and> \<bar>arc_extent c\<bar> \<le> 270
            \<and> 225 - 270 \<le> needle_angle c \<and> needle_angle c \<le> 225"
proof -
  from GaugeWidget_init_inv [OF assms(1,2)]
  have "gauge_inv g0" "min_val g0 = mn" "max_val g0 = mx" by simp_all
  with set_values_inv [OF _ assms(3)]
  have g: "gauge_inv g" "min_val g = mn" "max_val g = mx" by simp_all
  with assms(1) have ne: "min_val g \<noteq> max_val g" by simp
  from set_value_total [OF ne] obtain g' where g': "set_value g (Some raw) = Inr g'" ..
  from set_value_inv [OF g(1) g'] g
  have i': "gauge_inv g'" "min_val g' = mn" "max_val g' = mx" by simp_all
  from set_value_drawn [OF ne g'] have "last_drawn_value g' \<noteq> None" .
  from gauge_inv_geometry [OF i'(1) this] set_value_near_clamp [OF g(1) g'] g' g i'
  show ?thesis by auto
qed

theorem set_value_stays_in_arc_witness:
  "\<exists>g0 g g' c. GaugeWidget_init 0 200 = Inr g0 \<and> set_values g0 [Some 50] = Inr g
      \<and> set_value g (Some 300) = Inr g'
      \<and> 0 \<le> cur_value g' \<and> cur_value g' \<le> 200
      \<and> canvas g' = Some c \<and> \<bar>arc_extent c\<bar> \<le> 270
      \<and> 225 - 270 \<le> needle_angle c \<and> needle_angle c \<le> 225"
proof -
  have lt: "(0::real) < 200" by simp
  let ?i = "\<lparr>min_val = 0, max_val = 200, cur_value = 0, last_drawn_value = None,
             canvas = None, draw_calls = 0\<rparr>"
  have "min_val ?i \<noteq> max_val ?i" by simp
  from draw_ok [OF this] obtain g0 where g0: "GaugeWidget_init 0 200 = Inr g0"
    by (simp add: GaugeWidget_init_def)
  from GaugeWidget_init_inv [OF lt g0] have "min_val g0 \<noteq> max_val g0" by simp
  from set_value_total [OF this] obtain g where "set_value g0 (Some 50) = Inr g" ..
  then have g: "set_values g0 [Some 50] = Inr g" by (simp add: bind_err_Inr)
  from set_value_stays_in_arc [OF lt g0 g, of 300] g0 g show ?thesis by blast
qed


section \<open>Redraw policy\<close>

text \<open>
  C2, as amended. For the gauge of dashboard.py with \<open>min < max\<close>: \<open>set_value\<close> redraws
  exactly once and stores the clamped value when nothing was drawn before or the
  floating-point difference of the clamped value and the last drawn one exceeds 0.5 in
  magnitude, and changes nothing otherwise; a second call with the same number changes
  nothing, so that two equal calls on a fresh gauge draw once; with 50 drawn last and the
  numbers in range, 50.3 causes no redraw and 50.6 causes one; with 0.05 drawn last, 0.55
  causes no redraw, although the two floats differ by more than 0.5, because their
  difference is rounded to 0.5. The PyQt gauge of obd_dashboard_gui.py has no such
  threshold: every call stores the clamped value and requests a repaint.
\<close>

theorem redraw_policy:
  assumes "min_val g < max_val g"
  shows "(last_drawn_value g = None
            \<or> (\<exists>l. last_drawn_value g = Some l
                    \<and> \<bar>fsub (max (min_val g) (min (max_val g) raw)) l\<bar> > 0.5)
          \<longrightarrow> (\<exists>g'. set_value g (Some raw) = Inr g'
                    \<and> draw_calls g' = draw_calls g + 1
                    \<and> cur_value g' = max (min_val g) (min (max_val g) raw)
                    \<and> last_drawn_value g' = Some (max (min_val g) (min (max_val g) raw))))
       \<and> ((\<exists>l. last_drawn_value g = Some l
                \<and> \<not> \<bar>fsub (max (min_val g) (min (max_val g) raw)) l\<bar> > 0.5)
          \<longrightarrow> set_value g (Some raw) = Inr g)
       \<and> (\<forall>g'. set_value g (Some raw) = Inr g' \<longrightarrow> set_value g' (Some raw) = Inr g')
       \<and> (last_drawn_value g = None
          \<longrightarrow> (\<exists>g'. set_values g [Some raw, Some raw] = Inr g'
                    \<and> draw_calls g' = draw_calls g + 1))
       \<and> (last_drawn_value g = Some 50 \<and> min_val g \<le> 50 \<and> fl 50.3 \<le> max_val g
          \<longrightarrow> set_value g (Some (fl 50.3)) = Inr g)
       \<and> (last_drawn_value g = Some 50 \<and> min_val g \<le> 50 \<and> fl 50.6 \<le> max_val g
          \<longrightarrow> (\<exists>g'. set_value g (Some (fl 50.6)) = Inr g'
                    \<and> draw_calls g' = draw_calls g + 1 \<and> cur_value g' = fl 50.6))
       \<and> (last_drawn_value g = Some (fl 0.05) \<and> min_val g \<le> fl 0.05 \<and> fl 0.55 \<le> max_val g
          \<longrightarrow> set_value g (Some (fl 0.55)) = Inr g \<and> \<bar>fl 0.55 - fl 0.05\<bar> > 0.5)
       \<and> (\<forall>q. qt_set_value q (Some raw) =
                 Inr (q\<lparr>current_value := max (min_value q) (min (max_value q) raw),
                        update_calls := Suc (update_calls q)\<rparr>))"
proof -
  let ?n = "max (min_val g) (min (max_val g) raw)"
  from assms have ne: "min_val g \<noteq> max_val g" by simp
  have A: "\<exists>g'. set_value g (Some raw) = Inr g' \<and> draw_calls g' = draw_calls g + 1
                 \<and> cur_value g' = ?n \<and> last_drawn_value g' = Some ?n"
    if "last_drawn_value g = None \<or> (\<exists>l. last_drawn_value g = Some l \<and> \<bar>fsub ?n l\<bar> > 0.5)"
  proof -
    from that have "(case last_drawn_value g of None \<Rightarrow> True | Some l \<Rightarrow> \<bar>fsub ?n l\<bar> > 0.5)"
      by auto
    from set_value_redraw [OF ne this] show ?thesis by simp
  qed
  have B: "set_value g (Some raw) = Inr g"
    if "\<exists>l. last_drawn_value g = Some l \<and> \<not> \<bar>fsub ?n l\<bar> > 0.5"
    using that set_value_noop by blast
  have C: "\<forall>g'. set_value g (Some raw) = Inr g' \<longrightarrow> set_value g' (Some raw) = Inr g'"
    using set_value_twice [OF ne] by blast
  have D: "\<exists>g'. set_values g [Some raw, Some raw] = Inr g' \<and> draw_calls g' = draw_calls g + 1"
    if "last_drawn_value g = None"
  proof -
    from A that obtain g' where g': "set_value g (Some raw) = Inr g'"
      "draw_calls g' = draw_calls g + 1" by blast
    from set_value_twice [OF ne g'(1)] g' show ?thesis by (simp add: bind_err_Inr)
  qed
  have E: "set_value g (Some (fl 50.3)) = Inr g"
    if h: "last_drawn_value g = Some 50 \<and> min_val g \<le> 50 \<and> fl 50.3 \<le> max_val g"
  proof (rule set_value_noop [of _ 50])
    from h show "last_drawn_value g = Some 50" by simp
    from h fl_50_3_bounds(1) have "min_val g \<le> fl 50.3" "fl 50.3 \<le> max_val g" by simp_all
    then have c: "max (min_val g) (min (max_val g) (fl 50.3)) = fl 50.3"
      by (rule clamp_in_range)
    show "\<not> \<bar>fsub (max (min_val g) (min (max_val g) (fl 50.3))) 50\<bar> > 0.5"
      unfolding c by (rule near_50_3)
  qed
  have F: "\<exists>g'. set_value g (Some (fl 50.6)) = Inr g' \<and> draw_calls g' = draw_calls g + 1
                 \<and> cur_value g' = fl 50.6"
    if h: "last_drawn_value g = Some 50 \<and> min_val g \<le> 50 \<and> fl 50.6 \<le> max_val g"
  proof -
    from h fl_50_6_bounds(1) have "min_val g \<le> fl 50.6" "fl 50.6 \<le> max_val g" by simp_all
    then have c: "max (min_val g) (min (max_val g) (fl 50.6)) = fl 50.6" by (rule clamp_in_range)
    have "\<bar>fsub (max (min_val g) (min (max_val g) (fl 50.6))) 50\<bar> > 0.5"
      unfolding c by (rule far_50_6)
    with h
    have "(case last_drawn_value g of None \<Rightarrow> True
           | Some l \<Rightarrow> \<bar>fsub (max (min_val g) (min (max_val g) (fl 50.6))) l\<bar> > 0.5)" by simp
    from set_value_redraw [OF ne this] show ?thesis unfolding c by simp
  qed
  have G: "set_value g (Some (fl 0.55)) = Inr g \<and> \<bar>fl 0.55 - fl 0.05\<bar> > 0.5"
    if h: "last_drawn_value g = Some (fl 0.05) \<and> min_val g \<le> fl 0.05 \<and> fl 0.55 \<le> max_val g"
  proof
    show "set_value g (Some (fl 0.55)) = Inr g"
    proof (rule set_value_noop [of _ "fl 0.05"])
      from h show "last_drawn_value g = Some (fl 0.05)" by simp
      from h fl_0_55_bounds(1) have "min_val g \<le> fl 0.55" "fl 0.55 \<le> max_val g" by simp_all
      then have c: "max (min_val g) (min (max_val g) (fl 0.55)) = fl 0.55"
        by (rule clamp_in_range)
      show "\<not> \<bar>fsub (max (min_val g) (min (max_val g) (fl 0.55))) (fl 0.05)\<bar> > 0.5"
        unfolding c fsub_0_55 by simp
    qed
    from exact_diff_0_55 show "\<bar>fl 0.55 - fl 0.05\<bar> > 0.5" by simp
  qed
  have Q: "\<forall>q. qt_set_value q (Some raw) =
                 Inr (q\<lparr>current_value := max (min_value q) (min (max_value q) raw),
                        update_calls := Suc (update_calls q)\<rparr>)"
    by (simp add: qt_set_value_def)
  from A B C D E F G Q show ?thesis by blast
qed

theorem redraw_policy_witness:
  "set_value \<lparr>min_val = 0, max_val = 100, cur_value = 50, last_drawn_value = Some 50,
              canvas = None, draw_calls = 1\<rparr> (Some (fl 50.3))
     = Inr \<lparr>min_val = 0, max_val = 100, cur_value = 50, last_drawn_value = Some 50,
            canvas = None, draw_calls = 1\<rparr>
   \<and> (\<exists>g'. set_value \<lparr>min_val = 0, max_val = 100, cur_value = 50, last_drawn_value = Some 50,
                        canvas = None, draw_calls = 1\<rparr> (Some (fl 50.6)) = Inr g'
            \<and> draw_calls g' = draw_calls \<lparr>min_val = 0, max_val = 100, cur_value = 50,
                  last_drawn_value = Some 50, canvas = None, draw_calls = 1\<rparr> + 1
            \<and> cur_value g' = fl 50.6)
   \<and> set_value \<lparr>min_val = 0, max_val = 50, cur_value = fl 0.05,
                 last_drawn_value = Some (fl 0.05), canvas = None, draw_calls = 1\<rparr>
                (Some (fl 0.55))
     = Inr \<lparr>min_val = 0, max_val = 50, cur_value = fl 0.05,
            last_drawn_value = Some (fl 0.05), canvas = None, draw_calls = 1\<rparr>
   \<and> (\<exists>g'. set_values \<lparr>min_val = 0, max_val = 100, cur_value = 0, last_drawn_value = None,
                         canvas = None, draw_calls = 0\<rparr> [Some 50, Some 50] = Inr g'
            \<and> draw_calls g' = draw_calls \<lparr>min_val = 0, max_val = 100, cur_value = 0,
                  last_drawn_value = None, canvas = None, draw_calls = 0\<rparr> + 1)"
proof -
  let ?g = "\<lparr>min_val = 0, max_val = 100, cur_value = 50, last_drawn_value = Some 50,
             canvas = None, draw_calls = 1\<rparr>"
  let ?h = "\<lparr>min_val = 0, max_val = 50, cur_value = fl 0.05,
             last_drawn_value = Some (fl 0.05), canvas = None, draw_calls = 1\<rparr>"
  let ?f = "\<lparr>min_val = 0, max_val = 100, cur_value = 0, last_drawn_value = None,
             canvas = None, draw_calls = 0\<rparr>"
  have g: "min_val ?g < max_val ?g" and h: "min_val ?h < max_val ?h"
    and f: "min_val ?f < max_val ?f" by simp_all
  have h3: "last_drawn_value ?g = Some 50 \<and> min_val ?g \<le> 50 \<and> fl 50.3 \<le> max_val ?g"
    using fl_50_3_bounds(2) by simp
  have h6: "last_drawn_value ?g = Some 50 \<and> min_val ?g \<le> 50 \<and> fl 50.6 \<le> max_val ?g"
    using fl_50_6_bounds(2) by simp
  have h5: "last_drawn_value ?h = Some (fl 0.05) \<and> min_val ?h \<le> fl 0.05
            \<and> fl 0.55 \<le> max_val ?h"
    using fl_0_55_bounds(2,3) by simp
  have hf: "last_drawn_value ?f = None" by simp
  note c4 = conjunct2 [THEN conjunct2, THEN conjunct2]
  note rg = redraw_policy [OF g, of 0, THEN c4, THEN conjunct2]
  note rh = redraw_policy [OF h, of 0, THEN c4, THEN conjunct2]
  note rf = redraw_policy [OF f, of 50, THEN c4]
  from rg [THEN conjunct1, THEN mp, OF h3]
  have e: "set_value ?g (Some (fl 50.3)) = Inr ?g" .
  from rg [THEN conjunct2, THEN conjunct1, THEN mp, OF h6]
  have f6: "\<exists>g'. set_value ?g (Some (fl 50.6)) = Inr g'
      \<and> draw_calls g' = draw_calls ?g + 1 \<and> cur_value g' = fl 50.6" .
  from rh [THEN conjunct2, THEN conjunct2, THEN conjunct1, THEN mp, OF h5, THEN conjunct1]
  have r5: "set_value ?h (Some (fl 0.55)) = Inr ?h" .
  from rf [THEN conjunct1, THEN mp, OF hf]
  have d: "\<exists>g'. set_values ?f [Some 50, Some 50] = Inr g'
      \<and> draw_calls g' = draw_calls ?f + 1" .
  from e f6 r5 d show ?thesis by (intro conjI)
qed

text \<open>
  C2 as stated fails on the PyQt gauge: showing 50 after one call, \<open>set_value(50.3)\<close>
  stores 50.3 and requests a second repaint.
\<close>

theorem qt_redraw_counterexample:
  "qt_set_value \<lparr>min_value = 0, max_value = 100, current_value = 50, update_calls = 1\<rparr>
                (Some 50.3)
   = Inr \<lparr>min_value = 0, max_value = 100, current_value = 50.3, update_calls = 2\<rparr>"
  by (simp add: qt_set_value_def)


section \<open>Tick marks\<close>

text \<open>
  C7, as amended. For a gauge with \<open>min < max\<close> and \<open>i\<close> in \<open>0..8\<close>, both widgets draw
  nine marks, mark \<open>i\<close> at the angle \<open>225 - 270 * i / 8\<close> with the label \<open>int(val)\<close>, where
  \<open>val\<close> is \<open>min + (max - min) * i / 8\<close> computed in floating point and \<open>int\<close> truncates
  towards zero. When \<open>min\<close> and \<open>max\<close> are integers of magnitude at most \<open>2^40\<close>, as for
  every gauge of the two dashboards, \<open>val\<close> is the exact \<open>min + (max - min) * i / 8\<close>. With
  \<open>min = 0\<close> and \<open>max = 8000\<close> the labels are 0, 1000, ..., 8000.
\<close>

theorem tick_marks:
  assumes "min_val g < max_val g" and "min_value q < max_value q" and "i \<le> 8"
  shows "(\<exists>g' c. draw g = Inr g' \<and> canvas g' = Some c \<and> length (marks c) = 9
            \<and> marks c ! i =
                (225 - 270 * real i / 8,
                 py_int (fadd (min_val g)
                              (fdiv (fmul (fsub (max_val g) (min_val g)) (real i)) 8))))
       \<and> (\<exists>p. paintEvent q = Inr p \<and> length (scale_marks p) = 9
            \<and> scale_marks p ! i =
                (225 - 270 * real i / 8,
                 py_int (fadd (min_value q)
                              (fdiv (fmul (fsub (max_value q) (min_value q)) (real i)) 8))))
       \<and> (\<forall>a b. \<bar>a\<bar> \<le> 2 ^ 40 \<and> \<bar>b\<bar> \<le> 2 ^ 40
            \<longrightarrow> fadd (of_int a) (fdiv (fmul (fsub (of_int b) (of_int a)) (real i)) 8)
                = of_int a + (of_int b - of_int a) * real i / 8)
       \<and> map snd (draw_marks (g\<lparr>min_val := 0, max_val := 8000\<rparr>))
           = [0, 1000, 2000, 3000, 4000, 5000, 6000, 7000, 8000]
       \<and> map snd (draw_scale_marks (q\<lparr>min_value := 0, max_value := 8000\<rparr>))
           = [0, 1000, 2000, 3000, 4000, 5000, 6000, 7000, 8000]"
proof -
  from assms(1) have ne: "min_val g \<noteq> max_val g" by simp
  from assms(2) have qne: "min_value q \<noteq> max_value q" by simp
  from assms(3) have i: "i < 9" by simp
  have m: "marks (painted g) = draw_marks g" by (simp add: painted_def)
  have l: "length (draw_marks g) = 9" "length (draw_scale_marks q) = 9"
    by (simp_all add: draw_marks_def draw_scale_marks_def)
  have A: "\<exists>g' c. draw g = Inr g' \<and> canvas g' = Some c \<and> length (marks c) = 9
            \<and> marks c ! i =
                (225 - 270 * real i / 8,
                 py_int (fadd (min_val g)
                              (fdiv (fmul (fsub (max_val g) (min_val g)) (real i)) 8)))"
    using draw_marks_nth [OF i, of g] m l(1) by (simp add: draw_ok [OF ne])
  have B: "\<exists>p. paintEvent q = Inr p \<and> length (scale_marks p) = 9
            \<and> scale_marks p ! i =
                (225 - 270 * real i / 8,
                 py_int (fadd (min_value q)
                              (fdiv (fmul (fsub (max_value q) (min_value q)) (real i)) 8)))"
    using draw_scale_marks_nth [OF i, of q] l(2) by (simp add: paintEvent_ok [OF qne])
  have X: "\<forall>a b. \<bar>a\<bar> \<le> 2 ^ 40 \<and> \<bar>b\<bar> \<le> 2 ^ 40
            \<longrightarrow> fadd (of_int a) (fdiv (fmul (fsub (of_int b) (of_int a)) (real i)) 8)
                = of_int a + (of_int b - of_int a) * real i / 8"
    using tick_value_exact [OF _ _ assms(3)] by blast
  have C: "map snd (draw_marks (g\<lparr>min_val := 0, max_val := 8000\<rparr>))
           = [0, 1000, 2000, 3000, 4000, 5000, 6000, 7000, 8000]"
    by (rule draw_marks_labels_8000) simp_all
  have D: "map snd (draw_scale_marks (q\<lparr>min_value := 0, max_value := 8000\<rparr>))
           = [0, 1000, 2000, 3000, 4000, 5000, 6000, 7000, 8000]"
    by (rule draw_scale_marks_labels_8000) simp_all
  from A B X C D show ?thesis by blast
qed

theorem tick_marks_witness:
  "(\<exists>g' c. draw \<lparr>min_val = 0, max_val = 50, cur_value = 0, last_drawn_value = None,
                  canvas = None, draw_calls = 0\<rparr> = Inr g' \<and> canvas g' = Some c
       \<and> length (marks c) = 9 \<and> marks c ! 3 = (123.75, 18))
   \<and> (\<exists>p. paintEvent \<lparr>min_value = 0, max_value = 50, current_value = 0, update_calls = 0\<rparr>
            = Inr p
       \<and> length (scale_marks p) = 9 \<and> scale_marks p ! 3 = (123.75, 18))"
proof -
  let ?g = "\<lparr>min_val = 0, max_val = 50, cur_value = 0, last_drawn_value = None,
             canvas = None, draw_calls = 0\<rparr>"
  let ?q = "\<lparr>min_value = 0, max_value = 50, current_value = 0, update_calls = 0\<rparr>"
  note t = tick_marks [of ?g ?q 3]
  have h: "min_val ?g < max_val ?g" "min_value ?q < max_value ?q" "(3::nat) \<le> 8" by simp_all
  from t [OF h, THEN conjunct2, THEN conjunct2, THEN conjunct1, rule_format, of 0 50]
  have v: "fadd 0 (fdiv (fmul (fsub 50 0) 3) 8) = 75 / 4" by simp
  have p: "py_int (75 / 4) = 18" by (simp add: py_int_def)
  from t [OF h, THEN conjunct1] t [OF h, THEN conjunct2, THEN conjunct1]
  show ?thesis by (simp add: v p)
qed

text \<open>
  C7 as stated (label rounded to the nearest integer) fails on the fuel-rate gauge, which
  runs from 0 to 50: mark 3 stands for 18.75 and is labelled 18, not 19.
\<close>

theorem tick_label_counterexample:
  "\<not> (snd (draw_marks \<lparr>min_val = 0, max_val = 50, cur_value = 0, last_drawn_value = None,
                        canvas = None, draw_calls = 0\<rparr> ! 3)
       = round ((0::real) + (50 - 0) * 3 / 8))"
proof -
  have v: "fadd 0 (fdiv (fmul (fsub 50 0) 3) 8) = 75 / 4"
    using tick_value_exact [of 0 50 3] by simp
  have "py_int (75 / 4) = 18" by (simp add: py_int_def)
  moreover have "round ((0::real) + (50 - 0) * 3 / 8) = 19" by (simp add: round_def)
  ultimately show ?thesis by (simp add: draw_marks_nth v)
qed


section \<open>Sweep of the active arc at the ends of the range\<close>

text \<open>
  On the gauge of dashboard.py with \<open>min < max\<close>, drawing at \<open>value = min\<close> gives the
  active arc the extent 0, and at \<open>value = max\<close> the extent \<open>-270\<close>: the whole sweep,
  negative, the clockwise direction in which the background arc, the tick marks and the
  needle of that widget run. The PyQt widget passes the spans 0 and \<open>270 * 16 = 4320\<close>
  to \<open>drawArc\<close> at the two ends: the whole sweep again, but with a positive sign.
\<close>

lemma sweep_at_range_ends:
  assumes "min_val g < max_val g" and "min_value q < max_value q"
  shows "(\<exists>g' c. draw (g\<lparr>cur_value := min_val g\<rparr>) = Inr g' \<and> canvas g' = Some c
                 \<and> arc_extent c = 0)
       \<and> (\<exists>g' c. draw (g\<lparr>cur_value := max_val g\<rparr>) = Inr g' \<and> canvas g' = Some c
                 \<and> arc_extent c = - 270)
       \<and> (\<exists>p. paintEvent (q\<lparr>current_value := min_value q\<rparr>) = Inr p
               \<and> active_arc p = (3600, 0))
       \<and> (\<exists>p. paintEvent (q\<lparr>current_value := max_value q\<rparr>) = Inr p
               \<and> active_arc p = (3600, 4320))"
proof -
  let ?lo = "g\<lparr>cur_value := min_val g\<rparr>" and ?hi = "g\<lparr>cur_value := max_val g\<rparr>"
  let ?qlo = "q\<lparr>current_value := min_value q\<rparr>" and ?qhi = "q\<lparr>current_value := max_value q\<rparr>"
  from assms(1) have ne: "min_val ?lo \<noteq> max_val ?lo" "min_val ?hi \<noteq> max_val ?hi" by simp_all
  have lo: "arc_extent (painted ?lo) = 0"
    by (rule arc_extent_painted_min) simp
  have hi: "arc_extent (painted ?hi) = - 270"
    by (rule arc_extent_painted_max) (use assms(1) in simp_all)
  from assms(2) have qne: "min_value ?qlo \<noteq> max_value ?qlo" "min_value ?qhi \<noteq> max_value ?qhi"
    by simp_all
  have qlo: "active_arc (projr (paintEvent ?qlo)) = (3600, 0)"
    by (simp add: paintEvent_ok [OF qne(1)] py_int_def)
  have qhi: "active_arc (projr (paintEvent ?qhi)) = (3600, 4320)"
    using assms(2) by (simp add: paintEvent_ok [OF qne(2)] py_int_def)
  show ?thesis
    using lo hi qlo qhi
    by (simp add: draw_ok [OF ne(1)] draw_ok [OF ne(2)]
                  paintEvent_ok [OF qne(1)] paintEvent_ok [OF qne(2)])
qed

text \<open>
  C8. The claim holds on the gauge of dashboard.py (the lemma above). The PyQt gauge
  breaks it at \<open>value = max\<close>: on the tachometer, which runs from 0 to 8000, at 8000 the
  tick marks run from 225 degrees down to \<open>-45\<close> and the needle's angle is \<open>-45\<close>, which is
  the clockwise sweep, but the span passed to \<open>drawArc\<close> for the active arc is \<open>+4320\<close>
  sixteenths of a degree and not \<open>-4320\<close>: the arc is drawn from 225 degrees in the
  direction of growing angles, away from the marks.
\<close>

theorem qt_active_arc_at_max:
  "paintEvent \<lparr>min_value = 0, max_value = 8000, current_value = 8000, update_calls = 0\<rparr>
   = Inr \<lparr>background_arc = (3600, 4320), active_arc = (3600, 4320),
          scale_marks =
            [(225, 0), (191.25, 1000), (157.5, 2000), (123.75, 3000), (90, 4000),
             (56.25, 5000), (22.5, 6000), (- 11.25, 7000), (- 45, 8000)],
          qt_needle_angle = - 45, qt_value_text = 8000\<rparr>"
proof -
  let ?q = "\<lparr>min_value = 0, max_value = 8000, current_value = 8000, update_calls = 0\<rparr>"
  have ne: "min_value ?q \<noteq> max_value ?q" by simp
  have m: "draw_scale_marks ?q =
     [(225, 0), (191.25, 1000), (157.5, 2000), (123.75, 3000), (90, 4000), (56.25, 5000),
      (22.5, 6000), (- 11.25, 7000), (- 45, 8000)]"
    by (rule draw_scale_marks_8000) simp_all
  show ?thesis unfolding paintEvent_ok [OF ne] m by (simp add: py_int_def)
qed


section \<open>Facts about reading\<close>

lemma bind_err_eq_Inr: "bind_err m f = Inr y \<longleftrightarrow> (\<exists>x. m = Inr x \<and> f x = Inr y)"
  by (cases m) (simp_all add: bind_err_def)

lemma bind_err_eq_Inl:
  "bind_err m f = Inl e \<longleftrightarrow> m = Inl e \<or> (\<exists>x. m = Inr x \<and> f x = Inl e)"
  by (cases m) (simp_all add: bind_err_def)















section \<open>\<open>read_obd_data\<close> and the exceptions of the query\<close>




end
